theory Spec2Isabelle
  imports Main "HOL-Library.AList"
begin

section \<open>JavaScript values, objects and strings\<close>

text \<open>
  The repository is TypeScript. Entities and raw backend records are plain JavaScript
  objects: an object is modelled by the list of its own properties in insertion order
  (keys are distinct in every object a program can build). Field values are scalars.
  Objects are ordinary: extensible, with \<^verbatim>\<open>Object.prototype\<close> as their prototype.
\<close>

datatype jsval = JUndefined | JNull | JBool bool | JNum int | JStr string

type_synonym obj = "(string \<times> jsval) list"

text \<open>\<^verbatim>\<open>entity[k] = v\<close>: overwrite in place, or append a new own property.\<close>

definition setProperty :: "obj \<Rightarrow> string \<Rightarrow> jsval \<Rightarrow> obj" where
  "setProperty entity k v = AList.update k v entity"

text \<open>\<^verbatim>\<open>s.startsWith(p)\<close>\<close>

definition startsWith :: "string \<Rightarrow> string \<Rightarrow> bool" where
  "startsWith s p = (take (length p) s = p)"

text \<open>
  \<^verbatim>\<open>s.split(sep)\<close> for a one-character separator: the pieces between the separators,
  so the empty string gives one empty piece and a trailing separator a last empty piece.
\<close>

fun split_on :: "char \<Rightarrow> string \<Rightarrow> string list" where
  "split_on sep [] = [[]]"
| "split_on sep (c # cs) =
     (if c = sep then [] # split_on sep cs
      else (case split_on sep cs of
              [] \<Rightarrow> [[c]]
            | piece # pieces \<Rightarrow> (c # piece) # pieces))"

definition newline :: char where
  "newline = CHR 0x0A"

section \<open>Errors\<close>

text \<open>
  What a backend call raises: \<^verbatim>\<open>RestError\<close> of the table client library, read by the
  repository through \<^verbatim>\<open>error.message\<close>, \<^verbatim>\<open>error.statusCode\<close> and
  \<^verbatim>\<open>error.details['odataError']\<close> (\<^verbatim>\<open>code\<close>, \<^verbatim>\<open>message.value\<close>). Every part the code
  dereferences below \<^verbatim>\<open>details\<close> may be missing at run time (\<open>None\<close> is JavaScript's
  \<^verbatim>\<open>undefined\<close>), and dereferencing a missing part raises a TypeError. The message of an
  error object is always a string.
\<close>

record ODataMessage =
  msg_value :: "string option"

record ODataError =
  code :: "string option"
  od_message :: "ODataMessage option"

record Details =
  odataError :: "ODataError option"

record RestError =
  message :: string
  statusCode :: "int option"
  details :: "Details option"

text \<open>
  Modelled from the spec: \<^verbatim>\<open>CustomError\<close> comes from a package that is not under src/;
  the spec's \<^verbatim>\<open>DomainError{ message, code, statusCode }\<close> is what the constructor call
  \<^verbatim>\<open>new CustomError(errorMessage, errorCode, error.statusCode)\<close> builds.
\<close>

record CustomError =
  ce_message :: string
  ce_code :: "string option"
  ce_statusCode :: "int option"

text \<open>
  The values a repository operation can throw: \<^verbatim>\<open>new Error(msg)\<close> (only a message),
  a TypeError from dereferencing \<^verbatim>\<open>undefined\<close>, a \<^verbatim>\<open>CustomError\<close>, or a backend error
  object itself.
\<close>

datatype thrown =
  JsError string
| JsTypeError
| ThrownCustomError CustomError
| ThrownRestError RestError

text \<open>
  \<^verbatim>\<open>entity.hasOwnProperty(k)\<close> is a method call on the entity: the method is looked up
  on the entity itself first, so an own field named \<^verbatim>\<open>hasOwnProperty\<close> shadows the
  inherited method. Field values are scalars, and calling a scalar raises a TypeError.
  Otherwise the inherited method answers whether \<open>k\<close> is an own property.
\<close>

definition hasOwnProperty :: "obj \<Rightarrow> string \<Rightarrow> thrown + bool" where
  "hasOwnProperty entity k =
     (if map_of entity ''hasOwnProperty'' \<noteq> None then Inl JsTypeError
      else Inr (map_of entity k \<noteq> None))"

section \<open>The error classifier\<close>

text \<open>\<^verbatim>\<open>handleRestErrors\<close>, lines 161-215; \<open>tableName\<close> is \<^verbatim>\<open>this.tableName\<close>.\<close>

definition handleRestErrors :: "string \<Rightarrow> RestError \<Rightarrow> thrown + CustomError" where
  "handleRestErrors tableName error =
    (if \<not> startsWith (message error) ''{'' then Inl (JsError (message error))
     else
      (case details error of
         None \<Rightarrow> Inl JsTypeError
       | Some d \<Rightarrow>
      (case odataError d of
         None \<Rightarrow> Inl JsTypeError
       | Some od \<Rightarrow>
      (let errorCode = code od in
       if errorCode = Some ''TableAlreadyExists'' then
         Inr \<lparr>ce_message = ''Error creating table. Table '' @ tableName @ '' already exists.'',
              ce_code = errorCode, ce_statusCode = statusCode error\<rparr>
       else if errorCode = Some ''TableNotFound'' then
         Inr \<lparr>ce_message = ''Error creating entity. Table '' @ tableName @ '' Not Found. Is it created?'',
              ce_code = errorCode, ce_statusCode = statusCode error\<rparr>
       else if errorCode = Some ''ResourceNotFound'' then
         Inr \<lparr>ce_message = ''Error processing entity. Entity not found.'',
              ce_code = errorCode, ce_statusCode = statusCode error\<rparr>
       else if errorCode = Some ''InvalidInput'' then
         (case od_message od of
            None \<Rightarrow> Inl JsTypeError
          | Some m \<Rightarrow>
         (case msg_value m of
            None \<Rightarrow> Inl JsTypeError
          | Some v \<Rightarrow>
              Inr \<lparr>ce_message =
                     foldl (\<lambda>errorMessage line. errorMessage @ line)
                       ''Error creating entity:'' (split_on newline v),
                   ce_code = errorCode, ce_statusCode = statusCode error\<rparr>))
       else if errorCode = Some ''TableBeingDeleted'' then
         Inr \<lparr>ce_message = ''Error creating entity. Table '' @ tableName @ '' is being deleted. Try again later.'',
              ce_code = errorCode, ce_statusCode = statusCode error\<rparr>
       else if errorCode = Some ''EntityAlreadyExists'' then
         Inr \<lparr>ce_message = ''Error creating entity. Entity with the same partitionKey and rowKey already exists.'',
              ce_code = errorCode, ce_statusCode = statusCode error\<rparr>
       else
         Inr \<lparr>ce_message = message error, ce_code = errorCode,
              ce_statusCode = statusCode error\<rparr>))))"

text \<open>
  The body of every \<^verbatim>\<open>catch (error)\<close> block of the repository:
  \<^verbatim>\<open>const customError = await this.handleRestErrors(restError); throw customError;\<close>
  What the classifier throws propagates; what it returns is thrown.
\<close>

definition catchRestError :: "string \<Rightarrow> RestError \<Rightarrow> thrown + 'a" where
  "catchRestError tableName error =
    (case handleRestErrors tableName error of
       Inl t \<Rightarrow> Inl t
     | Inr customError \<Rightarrow> Inl (ThrownCustomError customError))"

section \<open>Connection handles and the world\<close>

text \<open>
  A client object of the table library is modelled by its identity (its index in the
  store of constructed objects) and the arguments its constructor received.
\<close>

record TableServiceClient =
  tsc_ref :: nat
  tsc_connectionString :: "string option"

record TableClientOptions =
  allowInsecureConnection :: bool

record TableClient =
  tc_ref :: nat
  tc_connectionString :: "string option"
  tc_tableName :: string
  tc_options :: TableClientOptions

datatype handle = ServiceObject TableServiceClient | EntityObject TableClient

record TableEntityQueryOptions =
  qo_filter :: "string option"
  qo_select :: "string list option"

text \<open>The calls the repository makes on the two clients.\<close>

datatype call =
  CreateTable TableServiceClient "string option"
| GetEntity TableClient string string
| ListEntities TableClient "TableEntityQueryOptions option"
| CreateEntity TableClient obj
| UpdateEntity TableClient obj
| DeleteEntity TableClient string string

text \<open>
  \<^verbatim>\<open>listEntities\<close> returns an asynchronous iterator: it yields records, then completes
  or throws.
\<close>

datatype listing = Done | Yield obj listing | Fail RestError

text \<open>
  Everything outside the two source files is a parameter: the environment variable, the
  library's check of a connection string (\<open>Some e\<close>: the \<^verbatim>\<open>fromConnectionString\<close>
  constructors throw \<open>e\<close>), the entity mapper (\<^verbatim>\<open>AzureEntityMapper.serialize\<close>, whose file
  is not under src/), and the table store, whose answer to a call may depend on all
  earlier calls.
\<close>

record Env =
  AZURE_STORAGE_CONNECTION_STRING :: "string option"
  connectionStringError :: "string option \<Rightarrow> RestError option"
  serialize :: "obj \<Rightarrow> obj"
  createTable :: "call list \<Rightarrow> TableServiceClient \<Rightarrow> string option \<Rightarrow> RestError + unit"
  getEntity :: "call list \<Rightarrow> TableClient \<Rightarrow> string \<Rightarrow> string \<Rightarrow> RestError + obj"
  listEntities :: "call list \<Rightarrow> TableClient \<Rightarrow> TableEntityQueryOptions option \<Rightarrow> listing"
  createEntity :: "call list \<Rightarrow> TableClient \<Rightarrow> obj \<Rightarrow> RestError + obj"
  updateEntity :: "call list \<Rightarrow> TableClient \<Rightarrow> obj \<Rightarrow> RestError + obj"
  deleteEntity :: "call list \<Rightarrow> TableClient \<Rightarrow> string \<Rightarrow> string \<Rightarrow> RestError + obj"

text \<open>
  The spec lists an \<^verbatim>\<open>allowInsecureConnection\<close>-style flag among the configuration
  inputs. The source has no such input; this extension of the environment carries one, so
  that a configuration asking for a secure connection can be written down. The source's
  functions are defined for every extension of \<open>Env\<close> and cannot read it.
\<close>

record SpecEnv = Env +
  configuredAllowInsecureConnection :: bool

text \<open>\<^verbatim>\<open>class AzureTableStorageService\<close>: the table name and the two private fields.\<close>

record AzureTableStorageService =
  svc_tableName :: string
  tableServiceClient :: "TableServiceClient option"
  tableClient :: "TableClient option"

text \<open>
  The mutable world: the service instance the repository refers to (\<^verbatim>\<open>this.manager\<close>),
  the client objects constructed so far, and the calls made on the table store so far.
\<close>

record World =
  manager :: AzureTableStorageService
  heap :: "handle list"
  calls :: "call list"

text \<open>\<^verbatim>\<open>new AzureTableStorageService(tableName)\<close>: both fields start undefined.\<close>

definition newAzureTableStorageService :: "string \<Rightarrow> AzureTableStorageService" where
  "newAzureTableStorageService tn =
     \<lparr>svc_tableName = tn, tableServiceClient = None, tableClient = None\<rparr>"

section \<open>AzureTableStorageService: the two accessors\<close>

definition tableServiceClientInstance ::
  "'a Env_scheme \<Rightarrow> World \<Rightarrow> (RestError + TableServiceClient) \<times> World" where
  "tableServiceClientInstance env w =
    (case tableServiceClient (manager w) of
       Some c \<Rightarrow> (Inr c, w)
     | None \<Rightarrow>
        (case connectionStringError env (AZURE_STORAGE_CONNECTION_STRING env) of
           Some e \<Rightarrow> (Inl e, w)
         | None \<Rightarrow>
            (let c = \<lparr>tsc_ref = length (heap w),
                      tsc_connectionString = AZURE_STORAGE_CONNECTION_STRING env\<rparr>
             in (Inr c,
                 w\<lparr>heap := heap w @ [ServiceObject c],
                   manager := (manager w)\<lparr>tableServiceClient := Some c\<rparr>\<rparr>))))"

definition tableClientInstance ::
  "'a Env_scheme \<Rightarrow> World \<Rightarrow> (RestError + TableClient) \<times> World" where
  "tableClientInstance env w =
    (case tableClient (manager w) of
       Some c \<Rightarrow> (Inr c, w)
     | None \<Rightarrow>
        (case connectionStringError env (AZURE_STORAGE_CONNECTION_STRING env) of
           Some e \<Rightarrow> (Inl e, w)
         | None \<Rightarrow>
            (let c = \<lparr>tc_ref = length (heap w),
                      tc_connectionString = AZURE_STORAGE_CONNECTION_STRING env,
                      tc_tableName = svc_tableName (manager w),
                      tc_options = \<lparr>allowInsecureConnection = True\<rparr>\<rparr>
             in (Inr c,
                 w\<lparr>heap := heap w @ [EntityObject c],
                   manager := (manager w)\<lparr>tableClient := Some c\<rparr>\<rparr>))))"

section \<open>AzureTableStorageRepository\<close>

record AzureTableStorageFeatureOptions =
  opt_createTableIfNotExists :: bool

text \<open>
  The repository's own fields; \<^verbatim>\<open>this.manager\<close> is the service instance of the world.
\<close>

record AzureTableStorageRepository =
  tableName :: string
  options :: AzureTableStorageFeatureOptions

definition logCall :: "call \<Rightarrow> World \<Rightarrow> World" where
  "logCall c w = w\<lparr>calls := calls w @ [c]\<rparr>"

text \<open>
  \<^verbatim>\<open>createTableIfNotExists\<close>, lines 32-44. The result type \<^verbatim>\<open>boolean | null\<close> is
  \<open>bool option\<close>. The accessor and the call are both inside the \<^verbatim>\<open>try\<close>.
\<close>

definition createTableIfNotExists ::
  "'a Env_scheme \<Rightarrow> AzureTableStorageRepository \<Rightarrow> string option \<Rightarrow> World
     \<Rightarrow> (thrown + bool option) \<times> World" where
  "createTableIfNotExists env this tn w =
    (case tableServiceClientInstance env w of
       (Inl error, w1) \<Rightarrow> (catchRestError (tableName this) error, w1)
     | (Inr client, w1) \<Rightarrow>
        (case createTable env (calls w1) client tn of
           Inl error \<Rightarrow>
             (catchRestError (tableName this) error, logCall (CreateTable client tn) w1)
         | Inr _ \<Rightarrow> (Inr (Some True), logCall (CreateTable client tn) w1)))"

text \<open>
  \<^verbatim>\<open>find\<close>, lines 46-68, under the name \<open>find_entity\<close> (\<open>find\<close> is a list function
  of HOL); \<open>None\<close> is \<^verbatim>\<open>null\<close>.
\<close>

definition find_entity ::
  "'a Env_scheme \<Rightarrow> AzureTableStorageRepository \<Rightarrow> string \<Rightarrow> string \<Rightarrow> World
     \<Rightarrow> (thrown + obj option) \<times> World" where
  "find_entity env this partitionKey rowKey w =
    (case tableClientInstance env w of
       (Inl error, w1) \<Rightarrow> (catchRestError (tableName this) error, w1)
     | (Inr client, w1) \<Rightarrow>
        (case getEntity env (calls w1) client partitionKey rowKey of
           Inl error \<Rightarrow>
             (catchRestError (tableName this) error,
              logCall (GetEntity client partitionKey rowKey) w1)
         | Inr result \<Rightarrow>
             (let mappedEntity = serialize env result in
              if length mappedEntity = 0
              then (Inr None, logCall (GetEntity client partitionKey rowKey) w1)
              else (Inr (Some mappedEntity),
                    logCall (GetEntity client partitionKey rowKey) w1))))"

text \<open>
  The \<^verbatim>\<open>for await\<close> loop of \<^verbatim>\<open>findAll\<close>, lines 78-81: every record the iterator
  yields is pushed as it is; an iterator that throws leaves the loop with the error.
\<close>

fun drain :: "listing \<Rightarrow> obj list \<Rightarrow> RestError + obj list" where
  "drain Done entities = Inr entities"
| "drain (Fail error) entities = Inl error"
| "drain (Yield entity records) entities = drain records (entities @ [entity])"

text \<open>\<^verbatim>\<open>findAll\<close>, lines 70-91.\<close>

definition findAll ::
  "'a Env_scheme \<Rightarrow> AzureTableStorageRepository \<Rightarrow> TableEntityQueryOptions option \<Rightarrow> World
     \<Rightarrow> (thrown + obj list) \<times> World" where
  "findAll env this queryOptions w =
    (case tableClientInstance env w of
       (Inl error, w1) \<Rightarrow> (catchRestError (tableName this) error, w1)
     | (Inr client, w1) \<Rightarrow>
        (case drain (listEntities env (calls w1) client queryOptions) [] of
           Inl error \<Rightarrow>
             (catchRestError (tableName this) error,
              logCall (ListEntities client queryOptions) w1)
         | Inr entities \<Rightarrow> (Inr entities, logCall (ListEntities client queryOptions) w1)))"

text \<open>The write of \<^verbatim>\<open>create\<close>, lines 105-114.\<close>

definition createWrite ::
  "'a Env_scheme \<Rightarrow> AzureTableStorageRepository \<Rightarrow> obj \<Rightarrow> World
     \<Rightarrow> (thrown + obj option) \<times> World" where
  "createWrite env this entity w =
    (case tableClientInstance env w of
       (Inl error, w1) \<Rightarrow> (catchRestError (tableName this) error, w1)
     | (Inr client, w1) \<Rightarrow>
        (case createEntity env (calls w1) client entity of
           Inl error \<Rightarrow>
             (catchRestError (tableName this) error, logCall (CreateEntity client entity) w1)
         | Inr result \<Rightarrow>
             (Inr (Some (serialize env result)), logCall (CreateEntity client entity) w1)))"

text \<open>
  \<^verbatim>\<open>create\<close>, lines 93-115. The provisioning call is outside the \<^verbatim>\<open>try\<close>: what it
  throws leaves \<^verbatim>\<open>create\<close> as it is.
\<close>

definition create ::
  "'a Env_scheme \<Rightarrow> AzureTableStorageRepository \<Rightarrow> obj \<Rightarrow> World
     \<Rightarrow> (thrown + obj option) \<times> World" where
  "create env this entity w =
    (if opt_createTableIfNotExists (options this) then
       (case createTableIfNotExists env this (Some (tableName this)) w of
          (Inl t, w1) \<Rightarrow> (Inl t, w1)
        | (Inr res, w1) \<Rightarrow>
            if res = None then (Inr None, w1) else createWrite env this entity w1)
     else createWrite env this entity w)"

text \<open>The write of \<^verbatim>\<open>update\<close>, lines 130-140.\<close>

definition updateWrite ::
  "'a Env_scheme \<Rightarrow> AzureTableStorageRepository \<Rightarrow> obj \<Rightarrow> World
     \<Rightarrow> (thrown + obj) \<times> World" where
  "updateWrite env this entity w =
    (case tableClientInstance env w of
       (Inl error, w1) \<Rightarrow> (catchRestError (tableName this) error, w1)
     | (Inr client, w1) \<Rightarrow>
        (case updateEntity env (calls w1) client entity of
           Inl error \<Rightarrow>
             (catchRestError (tableName this) error, logCall (UpdateEntity client entity) w1)
         | Inr result \<Rightarrow>
             (Inr (serialize env result), logCall (UpdateEntity client entity) w1)))"

text \<open>
  \<^verbatim>\<open>update\<close>, lines 117-141. The two \<^verbatim>\<open>hasOwnProperty\<close> tests come first, outside the
  \<^verbatim>\<open>try\<close>: a TypeError they raise leaves \<^verbatim>\<open>update\<close> as it is, before any backend
  call. \<open>entity2\<close> is the caller's object after the two tests.
\<close>

definition update ::
  "'a Env_scheme \<Rightarrow> AzureTableStorageRepository \<Rightarrow> string \<Rightarrow> string \<Rightarrow> obj \<Rightarrow> World
     \<Rightarrow> (thrown + obj) \<times> World" where
  "update env this partitionKey rowKey entity w =
    (case hasOwnProperty entity ''rowKey'' of
       Inl t \<Rightarrow> (Inl t, w)
     | Inr hasRowKey \<Rightarrow>
    (let entity1 = (if \<not> hasRowKey
                    then setProperty entity ''rowKey'' (JStr rowKey) else entity)
     in
    (case hasOwnProperty entity1 ''partitionKey'' of
       Inl t \<Rightarrow> (Inl t, w)
     | Inr hasPartitionKey \<Rightarrow>
    (let entity2 = (if \<not> hasPartitionKey
                    then setProperty entity1 ''partitionKey'' (JStr partitionKey) else entity1)
     in updateWrite env this entity2 w))))"

text \<open>
  \<^verbatim>\<open>delete\<close>, lines 143-159, under the name \<open>delete_entity\<close>: the backend's response is
  returned unmapped.
\<close>

definition delete_entity ::
  "'a Env_scheme \<Rightarrow> AzureTableStorageRepository \<Rightarrow> string \<Rightarrow> string \<Rightarrow> World
     \<Rightarrow> (thrown + obj) \<times> World" where
  "delete_entity env this partitionKey rowKey w =
    (case tableClientInstance env w of
       (Inl error, w1) \<Rightarrow> (catchRestError (tableName this) error, w1)
     | (Inr client, w1) \<Rightarrow>
        (case deleteEntity env (calls w1) client partitionKey rowKey of
           Inl error \<Rightarrow>
             (catchRestError (tableName this) error,
              logCall (DeleteEntity client partitionKey rowKey) w1)
         | Inr result \<Rightarrow> (Inr result, logCall (DeleteEntity client partitionKey rowKey) w1)))"

section \<open>Definitions used to state the properties\<close>

text \<open>An entity carries a field: it has an own property of that name.\<close>

definition carries :: "obj \<Rightarrow> string \<Rightarrow> bool" where
  "carries entity k = (map_of entity k \<noteq> None)"

text \<open>
  A message body that consists of the lines \<open>ls\<close>: the lines joined by the line
  separator. A line contains no separator.
\<close>

fun joinLines :: "string list \<Rightarrow> string" where
  "joinLines [] = []"
| "joinLines [l] = l"
| "joinLines (l # l' # ls) = l @ newline # joinLines (l' # ls)"

definition isLine :: "string \<Rightarrow> bool" where
  "isLine l = (newline \<notin> set l)"

text \<open>
  A client of one service instance: a sequence of accessor calls, each with the
  environment it is evaluated in, and the handles they return.
\<close>

datatype accessor = ServiceHandle | EntityHandle

definition access :: "'a Env_scheme \<Rightarrow> accessor \<Rightarrow> World \<Rightarrow> (RestError + handle) \<times> World" where
  "access env a w =
    (case a of
       ServiceHandle \<Rightarrow> map_prod (map_sum id ServiceObject) id (tableServiceClientInstance env w)
     | EntityHandle \<Rightarrow> map_prod (map_sum id EntityObject) id (tableClientInstance env w))"

fun accessAll ::
  "('a Env_scheme \<times> accessor) list \<Rightarrow> World \<Rightarrow> (RestError + handle) list \<times> World" where
  "accessAll [] w = ([], w)"
| "accessAll ((env, a) # rest) w =
     (case access env a w of
        (r, w1) \<Rightarrow> (case accessAll rest w1 of (rs, w2) \<Rightarrow> (r # rs, w2)))"

definition isServiceObject :: "handle \<Rightarrow> bool" where
  "isServiceObject h = (case h of ServiceObject _ \<Rightarrow> True | EntityObject _ \<Rightarrow> False)"

definition isEntityObject :: "handle \<Rightarrow> bool" where
  "isEntityObject h = (case h of ServiceObject _ \<Rightarrow> False | EntityObject _ \<Rightarrow> True)"

text \<open>A freshly constructed service instance in a world where nothing has happened yet.\<close>

definition freshWorld :: "string \<Rightarrow> World" where
  "freshWorld tn = \<lparr>manager = newAzureTableStorageService tn, heap = [], calls = []\<rparr>"


text \<open>The handle an accessor has cached in the service instance, if any.\<close>

definition cached :: "accessor \<Rightarrow> World \<Rightarrow> handle option" where
  "cached a w =
    (case a of
       ServiceHandle \<Rightarrow> map_option ServiceObject (tableServiceClient (manager w))
     | EntityHandle \<Rightarrow> map_option EntityObject (tableClient (manager w)))"

text \<open>
  The invariant of the store of constructed objects: the clients of each kind that were
  ever constructed are exactly the one the service instance has cached, or none.
\<close>

definition constructedOnce :: "World \<Rightarrow> bool" where
  "constructedOnce w =
    (filter isServiceObject (heap w) =
       (case tableServiceClient (manager w) of None \<Rightarrow> [] | Some c \<Rightarrow> [ServiceObject c])
     \<and> filter isEntityObject (heap w) =
       (case tableClient (manager w) of None \<Rightarrow> [] | Some c \<Rightarrow> [EntityObject c]))"

text \<open>What an iterator yields before it completes or throws, and what it throws.\<close>

fun yielded :: "listing \<Rightarrow> obj list" where
  "yielded Done = []"
| "yielded (Fail e) = []"
| "yielded (Yield r l) = r # yielded l"

fun failure :: "listing \<Rightarrow> RestError option" where
  "failure Done = None"
| "failure (Fail e) = Some e"
| "failure (Yield r l) = failure l"

text \<open>
  Modelled from the spec: \<^verbatim>\<open>AzureEntityMapper.serialize\<close> (azure-table.mapper, not under
  src/) is a pure transform that strips the backend's metadata fields, ETags and
  timestamps, from a raw record.
\<close>

definition stripMetadata :: "obj \<Rightarrow> obj" where
  "stripMetadata raw = filter (\<lambda>p. fst p \<notin> set [''etag'', ''timestamp'']) raw"

text \<open>The six detail codes the classifier has a message template for.\<close>

definition knownCodes :: "string list" where
  "knownCodes = [''TableAlreadyExists'', ''TableNotFound'', ''ResourceNotFound'',
                 ''InvalidInput'', ''TableBeingDeleted'', ''EntityAlreadyExists'']"

section \<open>Concrete environments for the examples\<close>

definition dq :: string where
  "dq = [CHR 0x22]"

text \<open>A table store in which nothing exists and nothing fails unless an example says so.\<close>

definition quietEnv :: Env where
  "quietEnv =
    \<lparr>AZURE_STORAGE_CONNECTION_STRING = Some ''UseDevelopmentStorage=true'',
     connectionStringError = (\<lambda>s. case s of None \<Rightarrow> Some \<lparr>message = ''Invalid connection string'', statusCode = None, details = None\<rparr> | Some _ \<Rightarrow> None),
     serialize = (\<lambda>raw. raw),
     createTable = (\<lambda>h c tn. Inr ()),
     getEntity = (\<lambda>h c pk rk. Inr []),
     listEntities = (\<lambda>h c q. Done),
     createEntity = (\<lambda>h c e. Inr e),
     updateEntity = (\<lambda>h c e. Inr e),
     deleteEntity = (\<lambda>h c pk rk. Inr [])\<rparr>"

definition peopleRepository :: AzureTableStorageRepository where
  "peopleRepository = \<lparr>tableName = ''people'', options = \<lparr>opt_createTableIfNotExists = True\<rparr>\<rparr>"


text \<open>A failure before the table store could answer: the message is not a JSON payload.\<close>

definition transportError :: RestError where
  "transportError =
    \<lparr>message = ''connect ECONNREFUSED 127.0.0.1:10002'', statusCode = Some 503,
     details = Some \<lparr>odataError = Some \<lparr>code = Some ''ServerBusy'', od_message = None\<rparr>\<rparr>\<rparr>"

text \<open>Structured errors: the message is the JSON body, the details its decoded form.\<close>

definition odataBody :: "string \<Rightarrow> string" where
  "odataBody c =
     ''{'' @ dq @ ''odata.error'' @ dq @ '':{'' @ dq @ ''code'' @ dq @ '':'' @ dq @ c @ dq @ ''}}''"

definition invalidInputLines :: "string list" where
  "invalidInputLines =
     [''One of the request inputs is not valid.'', ''RequestId:4e1f'', ''Time:2024-01-01T00:00:00Z'']"

definition invalidInputError :: RestError where
  "invalidInputError =
    \<lparr>message = odataBody ''InvalidInput'', statusCode = Some 400,
     details = Some \<lparr>odataError = Some \<lparr>code = Some ''InvalidInput'',
       od_message = Some \<lparr>msg_value = Some (joinLines invalidInputLines)\<rparr>\<rparr>\<rparr>\<rparr>"

definition throttledError :: RestError where
  "throttledError =
    \<lparr>message = odataBody ''ServerBusy'', statusCode = Some 503,
     details = Some \<lparr>odataError = Some \<lparr>code = Some ''ServerBusy'', od_message = None\<rparr>\<rparr>\<rparr>"

definition notFoundError :: RestError where
  "notFoundError =
    \<lparr>message = odataBody ''ResourceNotFound'', statusCode = Some 404,
     details = Some \<lparr>odataError = Some \<lparr>code = Some ''ResourceNotFound'',
       od_message = Some \<lparr>msg_value = Some ''The specified resource does not exist.''\<rparr>\<rparr>\<rparr>\<rparr>"

text \<open>The table store answers every point lookup with ResourceNotFound.\<close>

definition notFoundEnv :: Env where
  "notFoundEnv = quietEnv\<lparr>getEntity := (\<lambda>h c pk rk. Inl notFoundError)\<rparr>"

text \<open>A configuration that asks for secure connections only.\<close>

definition secureEnv :: SpecEnv where
  "secureEnv =
    \<lparr>AZURE_STORAGE_CONNECTION_STRING = AZURE_STORAGE_CONNECTION_STRING quietEnv,
     connectionStringError = connectionStringError quietEnv,
     serialize = serialize quietEnv,
     createTable = createTable quietEnv,
     getEntity = getEntity quietEnv,
     listEntities = listEntities quietEnv,
     createEntity = createEntity quietEnv,
     updateEntity = updateEntity quietEnv,
     deleteEntity = deleteEntity quietEnv,
     configuredAllowInsecureConnection = False\<rparr>"

text \<open>The entity client the first accessor call constructs in a fresh world, and that world.\<close>

definition peopleClient :: TableClient where
  "peopleClient =
    \<lparr>tc_ref = 0, tc_connectionString = Some ''UseDevelopmentStorage=true'',
     tc_tableName = ''people'', tc_options = \<lparr>allowInsecureConnection = True\<rparr>\<rparr>"

definition connectedWorld :: World where
  "connectedWorld =
    \<lparr>manager = \<lparr>svc_tableName = ''people'', tableServiceClient = None,
                tableClient = Some peopleClient\<rparr>,
     heap = [EntityObject peopleClient], calls = []\<rparr>"

text \<open>A patch without key fields, and an entity that carries its own keys.\<close>

definition patch :: obj where
  "patch = [(''name'', JStr ''Ada'')]"

definition keyed :: obj where
  "keyed = [(''partitionKey'', JStr ''own-pk''), (''rowKey'', JStr ''own-rk''),
            (''name'', JStr ''Ada'')]"

text \<open>A patch with a field that shadows the inherited \<^verbatim>\<open>hasOwnProperty\<close> method.\<close>

definition shadowed :: obj where
  "shadowed = [(''hasOwnProperty'', JStr ''x''), (''name'', JStr ''Ada'')]"

text \<open>The world after one \<^verbatim>\<open>updateEntity\<close> call on the entity client.\<close>

definition updatedWorld :: "obj \<Rightarrow> World" where
  "updatedWorld written = connectedWorld\<lparr>calls := [UpdateEntity peopleClient written]\<rparr>"

text \<open>A table with one record, as the table store lists it, and the mapper of the spec.\<close>

definition rawPerson :: obj where
  "rawPerson =
    [(''etag'', JStr ''W/datetime2024''), (''partitionKey'', JStr ''p1''),
     (''rowKey'', JStr ''r1''), (''timestamp'', JStr ''2024-01-01T00:00:00Z''),
     (''name'', JStr ''Ada'')]"

definition listingEnv :: Env where
  "listingEnv =
     quietEnv\<lparr>serialize := stripMetadata, listEntities := (\<lambda>h c q. Yield rawPerson Done)\<rparr>"

text \<open>The service client of a first call, and later calls, one with the variable unset.\<close>

definition serviceObject0 :: TableServiceClient where
  "serviceObject0 =
     \<lparr>tsc_ref = 0, tsc_connectionString = Some ''UseDevelopmentStorage=true''\<rparr>"

definition afterFirstCall :: World where
  "afterFirstCall =
    \<lparr>manager = \<lparr>svc_tableName = ''people'', tableServiceClient = Some serviceObject0,
                tableClient = None\<rparr>,
     heap = [ServiceObject serviceObject0], calls = []\<rparr>"

definition unsetEnv :: Env where
  "unsetEnv = quietEnv\<lparr>AZURE_STORAGE_CONNECTION_STRING := None\<rparr>"

definition laterCalls :: "(Env \<times> accessor) list" where
  "laterCalls = [(quietEnv, EntityHandle), (unsetEnv, ServiceHandle), (quietEnv, EntityHandle)]"

section \<open>First facts\<close>

lemmas world_defs = freshWorld_def newAzureTableStorageService_def logCall_def

lemmas accessor_defs = tableClientInstance_def tableServiceClientInstance_def Let_def

lemma startsWith_brace: "startsWith s ''{'' = (case s of [] \<Rightarrow> False | c # _ \<Rightarrow> c = CHR ''{'')"
  by (cases s) (auto simp: startsWith_def)

lemma startsWith_odataBody: "startsWith (odataBody c) ''{''"
  by (simp add: odataBody_def startsWith_def)

lemma split_on_line: "sep \<notin> set l \<Longrightarrow> split_on sep l = [l]"
  by (induction l) auto

lemma split_on_append:
  "sep \<notin> set l \<Longrightarrow> split_on sep (l @ sep # rest) = l # split_on sep rest"
  by (induction l) auto

text \<open>Splitting a body at the line separator gives back exactly its lines.\<close>

lemma split_on_joinLines:
  "ls \<noteq> [] \<Longrightarrow> list_all isLine ls \<Longrightarrow> split_on newline (joinLines ls) = ls"
proof (induction ls rule: joinLines.induct)
  case 1
  then show ?case by simp
next
  case (2 l)
  then show ?case by (simp add: isLine_def split_on_line)
next
  case (3 l l' ls)
  then show ?case by (simp add: isLine_def split_on_append)
qed

lemma foldl_append_concat:
  "foldl (\<lambda>errorMessage line. errorMessage @ line) acc ls = acc @ concat ls"
  by (induction ls arbitrary: acc) auto

lemma createTableIfNotExists_true_or_throws:
  "fst (createTableIfNotExists env this tn w) = Inr (Some True)
     \<or> (\<exists>t. fst (createTableIfNotExists env this tn w) = Inl t)"
  by (auto simp: createTableIfNotExists_def catchRestError_def split: prod.splits sum.splits)

lemma createWrite_not_null: "fst (createWrite env this entity w) \<noteq> Inr None"
  by (auto simp: createWrite_def catchRestError_def split: prod.splits sum.splits)

lemma update_absent: "map_of al k = None \<Longrightarrow> AList.update k v al = al @ [(k, v)]"
  by (induction al) (auto split: if_splits)

lemma setProperty_absent:
  "map_of entity k = None \<Longrightarrow> setProperty entity k v = entity @ [(k, v)]"
  by (simp add: setProperty_def update_absent)

lemma tableClientInstance_calls:
  "tableClientInstance env w = (r, w1) \<Longrightarrow> calls w1 = calls w"
  by (auto simp: tableClientInstance_def Let_def split: option.splits)

lemma hasOwnProperty_carries:
  "hasOwnProperty entity k =
     (if carries entity ''hasOwnProperty'' then Inl JsTypeError else Inr (carries entity k))"
  by (simp add: hasOwnProperty_def carries_def)

lemma carries_append: "carries (entity @ [(k, v)]) k' = (k' = k \<or> carries entity k')"
  by (auto simp: carries_def map_add_def split: option.splits)

lemma setProperty_new:
  "\<not> carries entity k \<Longrightarrow> setProperty entity k v = entity @ [(k, v)]"
  by (simp add: carries_def setProperty_absent)

text \<open>
  \<^verbatim>\<open>update\<close> with the two tests resolved: the TypeError of a shadowed method, or the
  write of the entity with the missing key fields appended.
\<close>

lemma update_unfold:
  "update env this pk rk entity w =
    (if carries entity ''hasOwnProperty'' then (Inl JsTypeError, w)
     else updateWrite env this
            ((if carries entity ''rowKey'' then entity else entity @ [(''rowKey'', JStr rk)])
             @ (if carries entity ''partitionKey'' then [] else [(''partitionKey'', JStr pk)]))
            w)"
  by (simp add: update_def hasOwnProperty_carries carries_append setProperty_new Let_def)

lemma fresh_tableClientInstance:
  "tableClientInstance quietEnv (freshWorld ''people'') = (Inr peopleClient, connectedWorld)"
  by (simp add: quietEnv_def accessor_defs world_defs peopleClient_def connectedWorld_def)

text \<open>The loop of \<^verbatim>\<open>findAll\<close> collects what the iterator yields, in order, unchanged.\<close>

lemma drain_yielded:
  "drain l acc = (case failure l of None \<Rightarrow> Inr (acc @ yielded l) | Some e \<Rightarrow> Inl e)"
  by (induction l arbitrary: acc) (auto split: option.splits)

text \<open>
  The null branch of \<^verbatim>\<open>create\<close> is dead: whenever provisioning returns, the write is
  attempted.
\<close>

lemma create_after_provisioning:
  "create env this entity w =
     (if opt_createTableIfNotExists (options this) then
        (case createTableIfNotExists env this (Some (tableName this)) w of
           (Inl t, w1) \<Rightarrow> (Inl t, w1)
         | (Inr res, w1) \<Rightarrow> createWrite env this entity w1)
      else createWrite env this entity w)"
proof (cases "opt_createTableIfNotExists (options this)")
  case False
  then show ?thesis by (simp add: create_def)
next
  case True
  obtain r w1 where r: "createTableIfNotExists env this (Some (tableName this)) w = (r, w1)"
    by (cases "createTableIfNotExists env this (Some (tableName this)) w")
  from createTableIfNotExists_true_or_throws [of env this "Some (tableName this)" w] r
  have "r = Inr (Some True) \<or> (\<exists>t. r = Inl t)"
    by simp
  then show ?thesis
    using True r by (auto simp: create_def)
qed

text \<open>\<^verbatim>\<open>findAll\<close> never calls the mapper: its result is the same under every mapper.\<close>

lemma tableClientInstance_ignores_mapper:
  "tableClientInstance (env\<lparr>serialize := f\<rparr>) w = tableClientInstance env w"
  by (simp add: tableClientInstance_def cong: option.case_cong)

lemma findAll_ignores_mapper:
  "findAll (env\<lparr>serialize := f\<rparr>) this q w = findAll env this q w"
  by (simp add: findAll_def tableClientInstance_ignores_mapper
        cong: prod.case_cong sum.case_cong)

lemma findAll_yielded:
  assumes "tableClientInstance env w = (Inr client, w1)"
    and "failure (listEntities env (calls w1) client q) = None"
  shows "fst (findAll env this q w) = Inr (yielded (listEntities env (calls w1) client q))"
  using assms by (simp add: findAll_def drain_yielded)

lemma access_caches: "access env a w = (Inr h, w1) \<Longrightarrow> cached a w1 = Some h"
  by (cases a) (auto simp: access_def cached_def accessor_defs split: option.splits)

lemma access_cached: "cached a w = Some h \<Longrightarrow> access env a w = (Inr h, w)"
  by (cases a) (auto simp: access_def cached_def accessor_defs split: option.splits)

lemma access_keeps_cached:
  "cached a w = Some h \<Longrightarrow> cached a (snd (access env b w)) = Some h"
  by (cases a; cases b) (auto simp: access_def cached_def accessor_defs split: option.splits)

lemma access_constructs:
  "cached a w = None \<Longrightarrow> access env a w = (Inr h, w1) \<Longrightarrow> heap w1 = heap w @ [h]"
  by (cases a) (auto simp: access_def cached_def accessor_defs split: option.splits)

lemma snd_accessAll_Cons:
  "snd (accessAll ((env, b) # cs) w) = snd (accessAll cs (snd (access env b w)))"
  by (simp split: prod.splits)

lemma accessAll_keeps_cached:
  "cached a w = Some h \<Longrightarrow> cached a (snd (accessAll cs w)) = Some h"
proof (induction cs arbitrary: w)
  case Nil
  then show ?case by simp
next
  case (Cons p cs)
  obtain env b where p: "p = (env, b)" by (cases p)
  from Cons.prems have "cached a (snd (access env b w)) = Some h"
    by (rule access_keeps_cached)
  from Cons.IH [OF this] show ?case
    unfolding p snd_accessAll_Cons .
qed

lemma access_constructedOnce: "constructedOnce w \<Longrightarrow> constructedOnce (snd (access env a w))"
  by (cases a)
     (auto simp: constructedOnce_def access_def accessor_defs isServiceObject_def
                 isEntityObject_def
           split: option.splits)

lemma accessAll_constructedOnce:
  "constructedOnce w \<Longrightarrow> constructedOnce (snd (accessAll cs w))"
proof (induction cs arbitrary: w)
  case Nil
  then show ?case by simp
next
  case (Cons p cs)
  obtain env b where p: "p = (env, b)" by (cases p)
  from Cons.prems have "constructedOnce (snd (access env b w))"
    by (rule access_constructedOnce)
  from Cons.IH [OF this] show ?case
    unfolding p snd_accessAll_Cons .
qed

lemma constructedOnce_fresh: "constructedOnce (freshWorld tn)"
  by (simp add: constructedOnce_def world_defs)

lemma constructedOnce_le:
  "constructedOnce w \<Longrightarrow>
     length (filter isServiceObject (heap w)) \<le> 1 \<and>
     length (filter isEntityObject (heap w)) \<le> 1"
  by (auto simp: constructedOnce_def split: option.splits)

section \<open>The classifier on unstructured errors\<close>

text \<open>
  C2, as the code has it. For every raw backend error whose message does not start with
  an opening brace, the classifier throws a new generic error that carries the original
  message and nothing else. It builds no \<^verbatim>\<open>CustomError\<close>; it does not rethrow the
  original error object, so the status code and the detail payload do not reach the caller.
\<close>

theorem handleRestErrors_unstructured:
  "\<not> startsWith (message error) ''{'' \<Longrightarrow>
     handleRestErrors tn error = Inl (JsError (message error))"
  by (simp add: handleRestErrors_def)

theorem handleRestErrors_unstructured_witness:
  "\<not> startsWith (message transportError) ''{'' \<and>
   handleRestErrors ''people'' transportError =
     Inl (JsError ''connect ECONNREFUSED 127.0.0.1:10002'')"
  using handleRestErrors_unstructured [of transportError "''people''"]
  by (simp add: transportError_def startsWith_def)

text \<open>
  C2 as stated fails: for the error \<open>transportError\<close> (status code 503, a detail payload)
  what is thrown is not the original error value.
\<close>

theorem handleRestErrors_unstructured_not_original:
  "handleRestErrors ''people'' transportError =
     Inl (JsError ''connect ECONNREFUSED 127.0.0.1:10002'') \<and>
   handleRestErrors ''people'' transportError \<noteq> Inl (ThrownRestError transportError)"
  by (simp add: handleRestErrors_def transportError_def startsWith_def)

section \<open>The classifier on unknown codes\<close>

text \<open>
  C9. For every structured backend error whose detail code is none of the six known
  codes, the classifier returns a \<^verbatim>\<open>CustomError\<close> whose message is the raw backend
  message, whose code is the detail code and whose status code is the backend's.
\<close>

theorem handleRestErrors_unknown_code:
  assumes "startsWith (message error) ''{''" and "details error = Some d"
    and "odataError d = Some od" and "code od = Some c" and "c \<notin> set knownCodes"
  shows "handleRestErrors tn error =
           Inr \<lparr>ce_message = message error, ce_code = Some c,
                ce_statusCode = statusCode error\<rparr>"
  using assms by (simp add: handleRestErrors_def knownCodes_def)

theorem handleRestErrors_unknown_code_witness:
  "startsWith (message throttledError) ''{'' \<and> ''ServerBusy'' \<notin> set knownCodes \<and>
   handleRestErrors ''people'' throttledError =
     Inr \<lparr>ce_message = odataBody ''ServerBusy'', ce_code = Some ''ServerBusy'',
          ce_statusCode = Some 503\<rparr>"
proof -
  have a: "startsWith (message throttledError) ''{''"
    by (simp add: throttledError_def startsWith_odataBody)
  have b: "''ServerBusy'' \<notin> set knownCodes"
    by (simp add: knownCodes_def)
  have c: "details throttledError =
             Some \<lparr>odataError = Some \<lparr>code = Some ''ServerBusy'', od_message = None\<rparr>\<rparr>"
    by (simp add: throttledError_def)
  from handleRestErrors_unknown_code
    [where od = "\<lparr>code = Some ''ServerBusy'', od_message = None\<rparr>"
       and tn = "''people''", OF a c _ _ b]
  have "handleRestErrors ''people'' throttledError =
          Inr \<lparr>ce_message = message throttledError, ce_code = Some ''ServerBusy'',
               ce_statusCode = statusCode throttledError\<rparr>"
    by simp
  with a b show ?thesis by (simp add: throttledError_def)
qed

section \<open>The classifier on InvalidInput\<close>

text \<open>
  C7. For every structured backend error with detail code InvalidInput whose detail
  message body consists of the lines \<open>ls\<close> (one or more, joined by the line separator),
  the classifier returns a \<^verbatim>\<open>CustomError\<close> whose message is the fixed prefix followed by
  all the lines, concatenated in their original order.
\<close>

theorem handleRestErrors_invalid_input:
  assumes "startsWith (message error) ''{''" and "details error = Some d"
    and "odataError d = Some od" and "code od = Some ''InvalidInput''"
    and "od_message od = Some m" and "msg_value m = Some (joinLines ls)"
    and "ls \<noteq> []" and "list_all isLine ls"
  shows "handleRestErrors tn error =
           Inr \<lparr>ce_message = ''Error creating entity:'' @ concat ls,
                ce_code = Some ''InvalidInput'', ce_statusCode = statusCode error\<rparr>"
  using assms by (simp add: handleRestErrors_def split_on_joinLines foldl_append_concat)

theorem handleRestErrors_invalid_input_witness:
  "startsWith (message invalidInputError) ''{'' \<and>
   invalidInputLines \<noteq> [] \<and> list_all isLine invalidInputLines \<and>
   handleRestErrors ''people'' invalidInputError =
     Inr \<lparr>ce_message = ''Error creating entity:One of the request inputs is not valid.RequestId:4e1fTime:2024-01-01T00:00:00Z'',
          ce_code = Some ''InvalidInput'', ce_statusCode = Some 400\<rparr>"
proof -
  have a: "startsWith (message invalidInputError) ''{''"
    by (simp add: invalidInputError_def startsWith_odataBody)
  have b: "list_all isLine invalidInputLines"
    by (simp add: invalidInputLines_def isLine_def newline_def)
  have n: "invalidInputLines \<noteq> []"
    by (simp add: invalidInputLines_def)
  have c: "details invalidInputError =
             Some \<lparr>odataError = Some \<lparr>code = Some ''InvalidInput'',
               od_message = Some \<lparr>msg_value = Some (joinLines invalidInputLines)\<rparr>\<rparr>\<rparr>"
    by (simp add: invalidInputError_def)
  from handleRestErrors_invalid_input
    [where od = "\<lparr>code = Some ''InvalidInput'',
               od_message = Some \<lparr>msg_value = Some (joinLines invalidInputLines)\<rparr>\<rparr>"
       and m = "\<lparr>msg_value = Some (joinLines invalidInputLines)\<rparr>"
       and tn = "''people''", OF a c _ _ _ _ n b]
  have "handleRestErrors ''people'' invalidInputError =
          Inr \<lparr>ce_message = ''Error creating entity:'' @ concat invalidInputLines,
               ce_code = Some ''InvalidInput'',
               ce_statusCode = statusCode invalidInputError\<rparr>"
    by simp
  then have "handleRestErrors ''people'' invalidInputError =
     Inr \<lparr>ce_message = ''Error creating entity:One of the request inputs is not valid.RequestId:4e1fTime:2024-01-01T00:00:00Z'',
          ce_code = Some ''InvalidInput'', ce_statusCode = Some 400\<rparr>"
    by (simp add: invalidInputLines_def invalidInputError_def)
  with a b n show ?thesis by simp
qed

section \<open>Table provisioning never reports null\<close>

text \<open>
  C5. In every execution \<^verbatim>\<open>createTableIfNotExists\<close> either returns true or throws; it
  never returns null or false. So the branch of \<^verbatim>\<open>create\<close> that returns null after
  provisioning is never taken: \<^verbatim>\<open>create\<close> is provisioning, when configured, followed by
  the write whenever provisioning returns, and it never returns null.
\<close>

theorem createTableIfNotExists_never_null:
  "(fst (createTableIfNotExists env this tn w) = Inr (Some True)
      \<or> (\<exists>t. fst (createTableIfNotExists env this tn w) = Inl t))
   \<and> create env this entity w =
       (if opt_createTableIfNotExists (options this) then
          (case createTableIfNotExists env this (Some (tableName this)) w of
             (Inl t, w1) \<Rightarrow> (Inl t, w1)
           | (Inr res, w1) \<Rightarrow> createWrite env this entity w1)
        else createWrite env this entity w)
   \<and> fst (create env this entity w) \<noteq> Inr None"
proof -
  have "fst (create env this entity w) \<noteq> Inr None"
    using createWrite_not_null [of env this entity]
    by (auto simp: create_after_provisioning split: prod.splits sum.splits)
  with createTableIfNotExists_true_or_throws create_after_provisioning show ?thesis
    by blast
qed

theorem createTableIfNotExists_never_null_witness:
  "fst (createTableIfNotExists quietEnv peopleRepository (Some ''people'')
          (freshWorld ''people'')) = Inr (Some True) \<and>
   fst (create quietEnv peopleRepository keyed (freshWorld ''people'')) = Inr (Some keyed)"
  using createTableIfNotExists_never_null
          [of quietEnv peopleRepository "Some ''people''" "freshWorld ''people''" keyed]
  by (simp add: createTableIfNotExists_def createWrite_def quietEnv_def
        peopleRepository_def accessor_defs world_defs)

section \<open>find on a missing entity\<close>

text \<open>
  C1, as the code has it. For every call \<^verbatim>\<open>find(partitionKey, rowKey)\<close> in which
  \<^verbatim>\<open>getEntity\<close> raises a structured error whose detail code is ResourceNotFound,
  \<^verbatim>\<open>find\<close> does not return null: it throws the classified error, with the fixed message
  for that code, the code itself and the backend's status code. \<^verbatim>\<open>find\<close> returns null
  only when \<^verbatim>\<open>getEntity\<close> succeeds and the mapped entity has no fields, and it does
  return null then.
\<close>

theorem find_entity_resource_not_found:
  "(tableClientInstance env w = (Inr client, w1) \<longrightarrow>
    getEntity env (calls w1) client pk rk = Inl error \<longrightarrow>
    startsWith (message error) ''{'' \<longrightarrow> details error = Some d \<longrightarrow>
    odataError d = Some od \<longrightarrow> code od = Some ''ResourceNotFound'' \<longrightarrow>
      fst (find_entity env this pk rk w) =
        Inl (ThrownCustomError
               \<lparr>ce_message = ''Error processing entity. Entity not found.'',
                ce_code = Some ''ResourceNotFound'', ce_statusCode = statusCode error\<rparr>))
   \<and> (fst (find_entity env this pk rk w) = Inr None \<longleftrightarrow>
        (\<exists>c w' result.
           tableClientInstance env w = (Inr c, w') \<and>
           getEntity env (calls w') c pk rk = Inr result \<and>
           serialize env result = []))"
proof -
  have thrown: "fst (find_entity env this pk rk w) =
        Inl (ThrownCustomError
               \<lparr>ce_message = ''Error processing entity. Entity not found.'',
                ce_code = Some ''ResourceNotFound'', ce_statusCode = statusCode error\<rparr>)"
    if "tableClientInstance env w = (Inr client, w1)"
      and "getEntity env (calls w1) client pk rk = Inl error"
      and "startsWith (message error) ''{''" and "details error = Some d"
      and "odataError d = Some od" and "code od = Some ''ResourceNotFound''"
    using that by (simp add: find_entity_def catchRestError_def handleRestErrors_def)
  have caught: "catchRestError tn e \<noteq> (Inr x :: thrown + obj option)" for tn e x
    by (simp add: catchRestError_def split: sum.splits)
  obtain r w' where acc: "tableClientInstance env w = (r, w')"
    by (cases "tableClientInstance env w")
  have null: "fst (find_entity env this pk rk w) = Inr None \<longleftrightarrow>
        (\<exists>c w' result.
           tableClientInstance env w = (Inr c, w') \<and>
           getEntity env (calls w') c pk rk = Inr result \<and>
           serialize env result = [])"
  proof (cases r)
    case (Inl e)
    with acc caught show ?thesis
      by (simp add: find_entity_def)
  next
    case (Inr c)
    show ?thesis
    proof (cases "getEntity env (calls w') c pk rk")
      case (Inl e)
      with acc \<open>r = Inr c\<close> caught show ?thesis
        by (simp add: find_entity_def)
    next
      case (Inr result)
      with acc \<open>r = Inr c\<close> show ?thesis
        by (simp add: find_entity_def Let_def)
    qed
  qed
  from thrown null show ?thesis
    by blast
qed

theorem find_entity_resource_not_found_witness:
  "startsWith (message notFoundError) ''{'' \<and>
   fst (find_entity notFoundEnv peopleRepository ''p1'' ''r1'' (freshWorld ''people'')) =
     Inl (ThrownCustomError
            \<lparr>ce_message = ''Error processing entity. Entity not found.'',
             ce_code = Some ''ResourceNotFound'', ce_statusCode = Some 404\<rparr>) \<and>
   getEntity quietEnv (calls connectedWorld) peopleClient ''p1'' ''r1'' = Inr [] \<and>
   serialize quietEnv [] = [] \<and>
   fst (find_entity quietEnv peopleRepository ''p1'' ''r1'' (freshWorld ''people'')) = Inr None"
proof -
  have a: "tableClientInstance notFoundEnv (freshWorld ''people'') =
             (Inr peopleClient, connectedWorld)"
    by (simp add: notFoundEnv_def quietEnv_def accessor_defs world_defs peopleClient_def
          connectedWorld_def)
  have b: "getEntity notFoundEnv (calls connectedWorld) peopleClient ''p1'' ''r1'' =
             Inl notFoundError"
    by (simp add: notFoundEnv_def)
  have c: "startsWith (message notFoundError) ''{''"
    by (simp add: notFoundError_def startsWith_odataBody)
  have d: "details notFoundError =
             Some \<lparr>odataError = Some \<lparr>code = Some ''ResourceNotFound'',
               od_message =
                 Some \<lparr>msg_value = Some ''The specified resource does not exist.''\<rparr>\<rparr>\<rparr>"
    by (simp add: notFoundError_def)
  from find_entity_resource_not_found
    [where env = notFoundEnv and this = peopleRepository and w = "freshWorld ''people''"
       and client = peopleClient and ?w1.0 = connectedWorld and pk = "''p1''"
       and rk = "''r1''" and error = notFoundError
       and d = "\<lparr>odataError = Some \<lparr>code = Some ''ResourceNotFound'',
               od_message =
                 Some \<lparr>msg_value = Some ''The specified resource does not exist.''\<rparr>\<rparr>\<rparr>"
       and od = "\<lparr>code = Some ''ResourceNotFound'',
               od_message =
                 Some \<lparr>msg_value = Some ''The specified resource does not exist.''\<rparr>\<rparr>"]
    a b c d
  have t: "fst (find_entity notFoundEnv peopleRepository ''p1'' ''r1'' (freshWorld ''people'')) =
          Inl (ThrownCustomError
                 \<lparr>ce_message = ''Error processing entity. Entity not found.'',
                  ce_code = Some ''ResourceNotFound'',
                  ce_statusCode = statusCode notFoundError\<rparr>)"
    by simp
  have g: "getEntity quietEnv (calls connectedWorld) peopleClient ''p1'' ''r1'' = Inr []"
    and m: "serialize quietEnv [] = []"
    by (simp_all add: quietEnv_def)
  from find_entity_resource_not_found
    [where env = quietEnv and this = peopleRepository and w = "freshWorld ''people''"
       and pk = "''p1''" and rk = "''r1''"]
    fresh_tableClientInstance g m
  have n: "fst (find_entity quietEnv peopleRepository ''p1'' ''r1'' (freshWorld ''people''))
             = Inr None"
    by blast
  from c t g m n show ?thesis
    by (simp add: notFoundError_def)
qed

text \<open>
  C1 as stated fails: against a table store that answers ResourceNotFound, \<^verbatim>\<open>find\<close>
  throws a classified error and does not return null.
\<close>

theorem find_entity_not_found_throws:
  "fst (find_entity notFoundEnv peopleRepository ''p1'' ''r1'' (freshWorld ''people'')) =
     Inl (ThrownCustomError
            \<lparr>ce_message = ''Error processing entity. Entity not found.'',
             ce_code = Some ''ResourceNotFound'', ce_statusCode = Some 404\<rparr>)
   \<and> fst (find_entity notFoundEnv peopleRepository ''p1'' ''r1'' (freshWorld ''people''))
       \<noteq> Inr None"
  by (simp add: find_entity_def notFoundEnv_def quietEnv_def accessor_defs world_defs
        catchRestError_def handleRestErrors_def notFoundError_def startsWith_odataBody)

section \<open>findAll returns the records as listed\<close>

text \<open>
  C3 says every element \<^verbatim>\<open>findAll\<close> returns went through the entity mapper. On a table
  whose listing yields the one record \<open>rawPerson\<close>, \<^verbatim>\<open>findAll\<close> returns that record with
  its ETag and timestamp, which is not what the mapper makes of it: the loop pushes each
  record as it is, where \<^verbatim>\<open>find\<close>, \<^verbatim>\<open>create\<close> and \<^verbatim>\<open>update\<close> call the mapper.
\<close>

theorem findAll_returns_unmapped_records:
  "fst (findAll listingEnv peopleRepository None (freshWorld ''people'')) = Inr [rawPerson]
   \<and> map (serialize listingEnv) [rawPerson] =
       [[(''partitionKey'', JStr ''p1''), (''rowKey'', JStr ''r1''), (''name'', JStr ''Ada'')]]
   \<and> [rawPerson] \<noteq> map (serialize listingEnv) [rawPerson]"
  by (simp add: findAll_def listingEnv_def quietEnv_def accessor_defs world_defs
        rawPerson_def stripMetadata_def)

section \<open>The insecure-connection flag of the entity handle\<close>

text \<open>
  C4, as the code has it. For every connection configuration, whenever the accessor
  constructs the entity handle, it constructs it with the insecure-connection flag set
  to true, and caches it: the flag is a constant of the implementation, no configuration
  value is read for it.
\<close>

theorem tableClientInstance_allows_insecure:
  "tableClient (manager w) = None \<Longrightarrow> tableClientInstance env w = (Inr c, w1) \<Longrightarrow>
     allowInsecureConnection (tc_options c) \<and> tableClient (manager w1) = Some c"
  by (auto simp: tableClientInstance_def Let_def split: option.splits)

theorem tableClientInstance_allows_insecure_witness:
  "tableClient (manager (freshWorld ''people'')) = None \<and>
   tableClientInstance secureEnv (freshWorld ''people'') = (Inr peopleClient, connectedWorld) \<and>
   allowInsecureConnection (tc_options peopleClient)"
proof -
  have n: "tableClient (manager (freshWorld ''people'')) = None"
    by (simp add: world_defs)
  have a: "tableClientInstance secureEnv (freshWorld ''people'') =
             (Inr peopleClient, connectedWorld)"
    by (simp add: secureEnv_def quietEnv_def accessor_defs world_defs peopleClient_def
          connectedWorld_def)
  from tableClientInstance_allows_insecure [OF n a] n a show ?thesis
    by simp
qed

text \<open>
  C4 as stated fails: under a configuration whose flag is false, the entity handle is
  still constructed with the flag true.
\<close>

theorem tableClientInstance_ignores_configured_flag:
  "fst (tableClientInstance secureEnv (freshWorld ''people'')) =
     Inr \<lparr>tc_ref = 0, tc_connectionString = Some ''UseDevelopmentStorage=true'',
          tc_tableName = ''people'', tc_options = \<lparr>allowInsecureConnection = True\<rparr>\<rparr>
   \<and> \<not> configuredAllowInsecureConnection secureEnv"
  by (simp add: secureEnv_def quietEnv_def accessor_defs world_defs)

section \<open>update and the key fields\<close>

text \<open>
  C6. For every call \<^verbatim>\<open>update(pk, rk, entity)\<close> where \<open>entity\<close> carries neither a rowKey
  nor a partitionKey field, the entity passed to the backend's \<^verbatim>\<open>updateEntity\<close> is
  \<open>entity\<close> with the two key fields added: its rowKey is \<open>rk\<close>, its partitionKey is
  \<open>pk\<close>, and every other field is as in \<open>entity\<close>. That is the only entity \<^verbatim>\<open>update\<close>
  ever passes: the result of \<^verbatim>\<open>update\<close> is what \<^verbatim>\<open>updateEntity\<close> answers on it. No
  entity is passed when a field of \<open>entity\<close> shadows the \<^verbatim>\<open>hasOwnProperty\<close> method (a
  TypeError, before any backend call) or when the entity handle cannot be constructed.
\<close>

theorem update_injects_keys:
  assumes "\<not> carries entity ''rowKey''" and "\<not> carries entity ''partitionKey''"
  shows "update env this pk rk entity w =
          (if carries entity ''hasOwnProperty'' then (Inl JsTypeError, w)
           else
            (case tableClientInstance env w of
               (Inl error, w1) \<Rightarrow> (catchRestError (tableName this) error, w1)
             | (Inr client, w1) \<Rightarrow>
                (case updateEntity env (calls w1) client
                        (entity @ [(''rowKey'', JStr rk), (''partitionKey'', JStr pk)]) of
                   Inl error \<Rightarrow>
                     (catchRestError (tableName this) error,
                      logCall (UpdateEntity client
                        (entity @ [(''rowKey'', JStr rk), (''partitionKey'', JStr pk)])) w1)
                 | Inr result \<Rightarrow>
                     (Inr (serialize env result),
                      logCall (UpdateEntity client
                        (entity @ [(''rowKey'', JStr rk), (''partitionKey'', JStr pk)])) w1))))
         \<and> map_of (entity @ [(''rowKey'', JStr rk), (''partitionKey'', JStr pk)]) ''rowKey''
             = Some (JStr rk)
         \<and> map_of (entity @ [(''rowKey'', JStr rk), (''partitionKey'', JStr pk)])
               ''partitionKey'' = Some (JStr pk)
         \<and> (\<forall>k. k \<noteq> ''rowKey'' \<longrightarrow> k \<noteq> ''partitionKey'' \<longrightarrow>
               map_of (entity @ [(''rowKey'', JStr rk), (''partitionKey'', JStr pk)]) k
                 = map_of entity k)"
proof -
  have "map_of entity ''rowKey'' = None" "map_of entity ''partitionKey'' = None"
    using assms by (simp_all add: carries_def)
  then have fields:
    "map_of (entity @ [(''rowKey'', JStr rk), (''partitionKey'', JStr pk)]) ''rowKey''
       = Some (JStr rk)
     \<and> map_of (entity @ [(''rowKey'', JStr rk), (''partitionKey'', JStr pk)])
           ''partitionKey'' = Some (JStr pk)
     \<and> (\<forall>k. k \<noteq> ''rowKey'' \<longrightarrow> k \<noteq> ''partitionKey'' \<longrightarrow>
           map_of (entity @ [(''rowKey'', JStr rk), (''partitionKey'', JStr pk)]) k
             = map_of entity k)"
    by (simp add: map_add_def split: option.splits)
  from assms have
    "update env this pk rk entity w =
          (if carries entity ''hasOwnProperty'' then (Inl JsTypeError, w)
           else
            (case tableClientInstance env w of
               (Inl error, w1) \<Rightarrow> (catchRestError (tableName this) error, w1)
             | (Inr client, w1) \<Rightarrow>
                (case updateEntity env (calls w1) client
                        (entity @ [(''rowKey'', JStr rk), (''partitionKey'', JStr pk)]) of
                   Inl error \<Rightarrow>
                     (catchRestError (tableName this) error,
                      logCall (UpdateEntity client
                        (entity @ [(''rowKey'', JStr rk), (''partitionKey'', JStr pk)])) w1)
                 | Inr result \<Rightarrow>
                     (Inr (serialize env result),
                      logCall (UpdateEntity client
                        (entity @ [(''rowKey'', JStr rk), (''partitionKey'', JStr pk)])) w1))))"
    by (simp add: update_unfold [of env this pk rk entity w] updateWrite_def)
  with fields show ?thesis
    by blast
qed

theorem update_injects_keys_witness:
  "\<not> carries patch ''rowKey'' \<and> \<not> carries patch ''partitionKey'' \<and>
   update quietEnv peopleRepository ''p1'' ''r1'' patch (freshWorld ''people'') =
     (Inr [(''name'', JStr ''Ada''), (''rowKey'', JStr ''r1''), (''partitionKey'', JStr ''p1'')],
      updatedWorld
        [(''name'', JStr ''Ada''), (''rowKey'', JStr ''r1''), (''partitionKey'', JStr ''p1'')]) \<and>
   \<not> carries shadowed ''rowKey'' \<and> \<not> carries shadowed ''partitionKey'' \<and>
   update quietEnv peopleRepository ''p1'' ''r1'' shadowed (freshWorld ''people'') =
     (Inl JsTypeError, freshWorld ''people'')"
proof -
  have a: "\<not> carries patch ''rowKey''" and b: "\<not> carries patch ''partitionKey''"
    and h: "\<not> carries patch ''hasOwnProperty''"
    by (simp_all add: patch_def carries_def)
  have c: "\<not> carries shadowed ''rowKey''" and d: "\<not> carries shadowed ''partitionKey''"
    and s: "carries shadowed ''hasOwnProperty''"
    by (simp_all add: shadowed_def carries_def)
  have echo: "updateEntity quietEnv cs cl e = Inr e" "serialize quietEnv e = e" for cs cl e
    by (simp_all add: quietEnv_def)
  from update_injects_keys
         [OF a b, of quietEnv peopleRepository "''p1''" "''r1''" "freshWorld ''people''"] h
  have "update quietEnv peopleRepository ''p1'' ''r1'' patch (freshWorld ''people'') =
     (Inr (patch @ [(''rowKey'', JStr ''r1''), (''partitionKey'', JStr ''p1'')]),
      updatedWorld (patch @ [(''rowKey'', JStr ''r1''), (''partitionKey'', JStr ''p1'')]))"
    by (simp add: fresh_tableClientInstance echo updatedWorld_def logCall_def
          connectedWorld_def)
  moreover from update_injects_keys
         [OF c d, of quietEnv peopleRepository "''p1''" "''r1''" "freshWorld ''people''"] s
  have "update quietEnv peopleRepository ''p1'' ''r1'' shadowed (freshWorld ''people'') =
     (Inl JsTypeError, freshWorld ''people'')"
    by simp
  ultimately show ?thesis
    using a b c d by (simp add: patch_def)
qed

text \<open>
  C10. For every call \<^verbatim>\<open>update(pk, rk, entity)\<close> where \<open>entity\<close> already carries a rowKey
  or a partitionKey field, the entity written to the backend has that field with the
  entity's own value, whatever \<open>pk\<close> and \<open>rk\<close> are; with both fields present the entity
  is written as it is. The entity \<open>written\<close> is the argument of \<^verbatim>\<open>updateEntity\<close>: the
  result of \<^verbatim>\<open>update\<close> is what the backend answers on it. Nothing is written when a
  field of \<open>entity\<close> shadows the \<^verbatim>\<open>hasOwnProperty\<close> method (a TypeError, before any
  backend call) or when the entity handle cannot be constructed.
\<close>

theorem update_keeps_own_keys:
  assumes "carries entity ''rowKey'' \<or> carries entity ''partitionKey''"
  shows "\<exists>written.
           (carries entity ''rowKey'' \<longrightarrow>
              map_of written ''rowKey'' = map_of entity ''rowKey'')
         \<and> (carries entity ''partitionKey'' \<longrightarrow>
               map_of written ''partitionKey'' = map_of entity ''partitionKey'')
         \<and> (carries entity ''rowKey'' \<longrightarrow> carries entity ''partitionKey'' \<longrightarrow>
               written = entity)
         \<and> (\<forall>env this w.
               update env this pk rk entity w =
                (if carries entity ''hasOwnProperty'' then (Inl JsTypeError, w)
                 else
                  (case tableClientInstance env w of
                     (Inl error, w1) \<Rightarrow> (catchRestError (tableName this) error, w1)
                   | (Inr client, w1) \<Rightarrow>
                      (case updateEntity env (calls w1) client written of
                         Inl error \<Rightarrow>
                           (catchRestError (tableName this) error,
                            logCall (UpdateEntity client written) w1)
                       | Inr result \<Rightarrow>
                           (Inr (serialize env result),
                            logCall (UpdateEntity client written) w1)))))"
proof -
  let ?written =
    "(if carries entity ''rowKey'' then entity else entity @ [(''rowKey'', JStr rk)])
     @ (if carries entity ''partitionKey'' then [] else [(''partitionKey'', JStr pk)])"
  have r: "carries entity ''rowKey'' \<longrightarrow> map_of ?written ''rowKey'' = map_of entity ''rowKey''"
    by (auto simp: carries_def map_add_def split: option.splits)
  have p: "carries entity ''partitionKey'' \<longrightarrow>
             map_of ?written ''partitionKey'' = map_of entity ''partitionKey''"
    by (auto simp: carries_def map_add_def split: option.splits)
  have b: "carries entity ''rowKey'' \<longrightarrow> carries entity ''partitionKey'' \<longrightarrow> ?written = entity"
    by simp
  have u: "\<forall>env this w.
               update env this pk rk entity w =
                (if carries entity ''hasOwnProperty'' then (Inl JsTypeError, w)
                 else
                  (case tableClientInstance env w of
                     (Inl error, w1) \<Rightarrow> (catchRestError (tableName this) error, w1)
                   | (Inr client, w1) \<Rightarrow>
                      (case updateEntity env (calls w1) client ?written of
                         Inl error \<Rightarrow>
                           (catchRestError (tableName this) error,
                            logCall (UpdateEntity client ?written) w1)
                       | Inr result \<Rightarrow>
                           (Inr (serialize env result),
                            logCall (UpdateEntity client ?written) w1))))"
    unfolding update_unfold [of _ _ pk rk entity] updateWrite_def by simp
  from r p b u show ?thesis
    by blast
qed

theorem update_keeps_own_keys_witness:
  "carries keyed ''rowKey'' \<and> carries keyed ''partitionKey'' \<and>
   map_of keyed ''rowKey'' = Some (JStr ''own-rk'') \<and>
   map_of keyed ''partitionKey'' = Some (JStr ''own-pk'') \<and>
   update quietEnv peopleRepository ''p1'' ''r1'' keyed (freshWorld ''people'') =
     (Inr keyed, updatedWorld keyed)"
proof -
  have a: "carries keyed ''rowKey''" and b: "carries keyed ''partitionKey''"
    and h: "\<not> carries keyed ''hasOwnProperty''"
    by (simp_all add: keyed_def carries_def)
  have echo: "updateEntity quietEnv cs cl e = Inr e" "serialize quietEnv e = e" for cs cl e
    by (simp_all add: quietEnv_def)
  from update_keeps_own_keys [of keyed "''p1''" "''r1''"] a b
  have "update quietEnv peopleRepository ''p1'' ''r1'' keyed (freshWorld ''people'') =
          (if carries keyed ''hasOwnProperty'' then (Inl JsTypeError, freshWorld ''people'')
           else
            (case tableClientInstance quietEnv (freshWorld ''people'') of
               (Inl error, w1) \<Rightarrow> (catchRestError (tableName peopleRepository) error, w1)
             | (Inr client, w1) \<Rightarrow>
                (case updateEntity quietEnv (calls w1) client keyed of
                   Inl error \<Rightarrow>
                     (catchRestError (tableName peopleRepository) error,
                      logCall (UpdateEntity client keyed) w1)
                 | Inr result \<Rightarrow>
                     (Inr (serialize quietEnv result),
                      logCall (UpdateEntity client keyed) w1))))"
    by blast
  with h have "update quietEnv peopleRepository ''p1'' ''r1'' keyed (freshWorld ''people'') =
     (Inr keyed, updatedWorld keyed)"
    by (simp add: fresh_tableClientInstance echo updatedWorld_def logCall_def
          connectedWorld_def)
  with a b show ?thesis
    by (simp add: keyed_def)
qed

section \<open>Each handle is constructed at most once\<close>

text \<open>
  C8. Over the lifetime of a service instance, whatever accessor calls are made and in
  whatever environments, at most one service client and at most one entity client are
  ever constructed. A call that finds nothing cached and succeeds constructs exactly one
  handle; a call that succeeds leaves its handle cached; and after that, whatever other
  accessor calls come between, every call of the same accessor returns the identical
  handle and changes nothing, so it constructs nothing.
\<close>

theorem handles_constructed_at_most_once:
  "length (filter isServiceObject (heap (snd (accessAll cs (freshWorld tn))))) \<le> 1 \<and>
   length (filter isEntityObject (heap (snd (accessAll cs (freshWorld tn))))) \<le> 1 \<and>
   (access env a w = (Inr h, w1) \<longrightarrow>
      (cached a w = None \<longrightarrow> heap w1 = heap w @ [h]) \<and>
      cached a w1 = Some h \<and>
      access env' a (snd (accessAll cs' w1)) = (Inr h, snd (accessAll cs' w1)))"
proof -
  have "constructedOnce (snd (accessAll cs (freshWorld tn)))"
    by (rule accessAll_constructedOnce [OF constructedOnce_fresh])
  then have count:
    "length (filter isServiceObject (heap (snd (accessAll cs (freshWorld tn))))) \<le> 1 \<and>
     length (filter isEntityObject (heap (snd (accessAll cs (freshWorld tn))))) \<le> 1"
    by (rule constructedOnce_le)
  have "(cached a w = None \<longrightarrow> heap w1 = heap w @ [h]) \<and> cached a w1 = Some h \<and>
        access env' a (snd (accessAll cs' w1)) = (Inr h, snd (accessAll cs' w1))"
    if call: "access env a w = (Inr h, w1)"
  proof -
    from call have c: "cached a w1 = Some h"
      by (rule access_caches)
    then have "cached a (snd (accessAll cs' w1)) = Some h"
      by (rule accessAll_keeps_cached)
    then have "access env' a (snd (accessAll cs' w1)) = (Inr h, snd (accessAll cs' w1))"
      by (rule access_cached)
    with c call show ?thesis
      by (simp add: access_constructs)
  qed
  with count show ?thesis by blast
qed

theorem handles_constructed_at_most_once_witness:
  "access quietEnv ServiceHandle (freshWorld ''people'') =
     (Inr (ServiceObject serviceObject0), afterFirstCall) \<and>
   access unsetEnv ServiceHandle (snd (accessAll laterCalls afterFirstCall)) =
     (Inr (ServiceObject serviceObject0), snd (accessAll laterCalls afterFirstCall)) \<and>
   length (filter isServiceObject
     (heap (snd (accessAll ((quietEnv, ServiceHandle) # laterCalls) (freshWorld ''people'')))))
     = 1 \<and>
   length (filter isEntityObject
     (heap (snd (accessAll ((quietEnv, ServiceHandle) # laterCalls) (freshWorld ''people'')))))
     = 1"
proof -
  have a: "access quietEnv ServiceHandle (freshWorld ''people'') =
             (Inr (ServiceObject serviceObject0), afterFirstCall)"
    by (simp add: access_def quietEnv_def accessor_defs world_defs serviceObject0_def
          afterFirstCall_def)
  have h: "heap (snd (accessAll ((quietEnv, ServiceHandle) # laterCalls)
                        (freshWorld ''people''))) =
             [ServiceObject serviceObject0,
              EntityObject \<lparr>tc_ref = 1,
                tc_connectionString = Some ''UseDevelopmentStorage=true'',
                tc_tableName = ''people'',
                tc_options = \<lparr>allowInsecureConnection = True\<rparr>\<rparr>]"
    by (simp add: laterCalls_def unsetEnv_def access_def quietEnv_def accessor_defs
          world_defs serviceObject0_def)
  from handles_constructed_at_most_once
    [of "(quietEnv, ServiceHandle) # laterCalls" "''people''" quietEnv ServiceHandle
        "freshWorld ''people''" "ServiceObject serviceObject0" afterFirstCall unsetEnv
        laterCalls] a
  have "access unsetEnv ServiceHandle (snd (accessAll laterCalls afterFirstCall)) =
          (Inr (ServiceObject serviceObject0), snd (accessAll laterCalls afterFirstCall))"
    by simp
  with a h show ?thesis
    by (simp add: isServiceObject_def isEntityObject_def)
qed

end
